theory Spec2Isabelle
  imports Complex_Main "HOL-Library.Multiset"
begin

section \<open>Data model\<close>

text \<open>
  The two source files (\<^verbatim>\<open>app.py\<close> and \<^verbatim>\<open>recommend_api.py\<close>) define the same five
  functions with identical bodies; one embedding covers both.

  A row of the catalog \<^verbatim>\<open>track_df\<close>. The columns \<^verbatim>\<open>genre_top\<close> and \<^verbatim>\<open>artist_name\<close>
  are nullable (\<^verbatim>\<open>NaN\<close> is \<open>None\<close>). The catalog always has its columns (line 22 reads
  \<^verbatim>\<open>track_df['track_id']\<close>), so it is the list of its rows.
\<close>

record track =
  track_id :: int
  title :: "string option"
  genre_top :: "string option"
  artist_name :: "string option"

text \<open>
  A row of the \<^verbatim>\<open>candidates\<close> frame: \<^verbatim>\<open>genre_top\<close> and \<^verbatim>\<open>artist_name\<close> have been
  overwritten by their cleaned strings, and the column \<^verbatim>\<open>similarity\<close> has been added.
  The only floats that occur are \<^verbatim>\<open>0.0\<close>, \<^verbatim>\<open>0.0 + 0.3\<close>, \<^verbatim>\<open>0.0 + 0.7\<close> and
  \<^verbatim>\<open>0.0 + 0.7 + 0.3\<close>, which in double precision are the doubles written \<^verbatim>\<open>0.0\<close>,
  \<^verbatim>\<open>0.3\<close>, \<^verbatim>\<open>0.7\<close> and \<^verbatim>\<open>1.0\<close>; they are modelled by the rationals 0, 3/10, 7/10
  and 1, which compare the same way.
\<close>

record candidate =
  c_track_id :: int
  c_title :: "string option"
  c_genre_top :: string
  c_artist_name :: string
  similarity :: rat

text \<open>
  A data frame of recommendations. \<^verbatim>\<open>pd.DataFrame()\<close> has no rows and no columns
  (\<open>NoColumns\<close>); every other frame of the program has the candidate columns.
\<close>

datatype frame = NoColumns | Rows "candidate list"

fun frame_rows :: "frame \<Rightarrow> candidate list" where
  "frame_rows NoColumns = []"
| "frame_rows (Rows cs) = cs"

text \<open>The exceptions pandas raises in these functions.\<close>

datatype error = KeyError | ValueError

section \<open>clean\_string\<close>

text \<open>
  \<^verbatim>\<open>str(val).strip().lower() if pd.notna(val) else ""\<close>. A string is the list of its
  code points, which the type \<open>char\<close> bounds by 255 (Latin-1 text). On these code points
  \<^verbatim>\<open>strip()\<close> removes the characters 9 to 13, 28 to 32, 133 and 160, and \<^verbatim>\<open>lower()\<close>
  maps A-Z and the accented capitals (192 to 222 except 215) to their small letters, leaving
  every other character as it is.
\<close>

definition is_space :: "char \<Rightarrow> bool" where
  "is_space c =
     (let n = (of_char c :: nat)
      in (9 \<le> n \<and> n \<le> 13) \<or> (28 \<le> n \<and> n \<le> 32) \<or> n = 133 \<or> n = 160)"

definition strip :: "string \<Rightarrow> string" where
  "strip s = rev (dropWhile is_space (rev (dropWhile is_space s)))"

text \<open>The capital letters below code point 256 and their small letters, in the same order.\<close>

definition upper_letters :: "char list" where
  "upper_letters =
     ''ABCDEFGHIJKLMNOPQRSTUVWXYZ'' @
     [CHR 0xC0, CHR 0xC1, CHR 0xC2, CHR 0xC3, CHR 0xC4, CHR 0xC5, CHR 0xC6, CHR 0xC7,
      CHR 0xC8, CHR 0xC9, CHR 0xCA, CHR 0xCB, CHR 0xCC, CHR 0xCD, CHR 0xCE, CHR 0xCF,
      CHR 0xD0, CHR 0xD1, CHR 0xD2, CHR 0xD3, CHR 0xD4, CHR 0xD5, CHR 0xD6,
      CHR 0xD8, CHR 0xD9, CHR 0xDA, CHR 0xDB, CHR 0xDC, CHR 0xDD, CHR 0xDE]"

definition lower_letters :: "char list" where
  "lower_letters =
     ''abcdefghijklmnopqrstuvwxyz'' @
     [CHR 0xE0, CHR 0xE1, CHR 0xE2, CHR 0xE3, CHR 0xE4, CHR 0xE5, CHR 0xE6, CHR 0xE7,
      CHR 0xE8, CHR 0xE9, CHR 0xEA, CHR 0xEB, CHR 0xEC, CHR 0xED, CHR 0xEE, CHR 0xEF,
      CHR 0xF0, CHR 0xF1, CHR 0xF2, CHR 0xF3, CHR 0xF4, CHR 0xF5, CHR 0xF6,
      CHR 0xF8, CHR 0xF9, CHR 0xFA, CHR 0xFB, CHR 0xFC, CHR 0xFD, CHR 0xFE]"

definition lower_char :: "char \<Rightarrow> char" where
  "lower_char c = (case map_of (zip upper_letters lower_letters) c of None \<Rightarrow> c | Some d \<Rightarrow> d)"

definition lower :: "string \<Rightarrow> string" where
  "lower s = map lower_char s"

definition clean_string :: "string option \<Rightarrow> string" where
  "clean_string val = (case val of Some s \<Rightarrow> lower (strip s) | None \<Rightarrow> [])"

text \<open>The whitespace characters below code point 256, one by one.\<close>

definition whitespace_chars :: "char list" where
  "whitespace_chars =
     [CHR 0x09, CHR 0x0A, CHR 0x0B, CHR 0x0C, CHR 0x0D, CHR 0x1C, CHR 0x1D, CHR 0x1E, CHR 0x1F,
      CHR 0x20, CHR 0x85, CHR 0xA0]"

text \<open>The codes of the capital letters: 65 to 90 and 192 to 222 except 215.\<close>

definition is_upper_code :: "nat \<Rightarrow> bool" where
  "is_upper_code n = ((65 \<le> n \<and> n \<le> 90) \<or> (192 \<le> n \<and> n \<le> 222 \<and> n \<noteq> 215))"

section \<open>The pandas operations the functions call\<close>

text \<open>
  \<^verbatim>\<open>head(n)\<close> is \<^verbatim>\<open>iloc[:n]\<close>: the first \<open>n\<close> rows, and for a negative \<open>n\<close> all rows but
  the last \<open>-n\<close>.
\<close>

definition head :: "int \<Rightarrow> 'a list \<Rightarrow> 'a list" where
  "head n xs = (if 0 \<le> n then take (nat n) xs else take (length xs - nat (- n)) xs)"

text \<open>\<^verbatim>\<open>drop_duplicates(subset='track_id')\<close> keeps the first row of every \<^verbatim>\<open>track_id\<close>.\<close>

fun keep_first :: "int set \<Rightarrow> candidate list \<Rightarrow> candidate list" where
  "keep_first seen [] = []"
| "keep_first seen (c # cs) =
     (if c_track_id c \<in> seen then keep_first seen cs
      else c # keep_first (insert (c_track_id c) seen) cs)"

definition drop_duplicates :: "candidate list \<Rightarrow> candidate list" where
  "drop_duplicates cs = keep_first {} cs"

text \<open>
  \<^verbatim>\<open>sample(n=n, random_state=42)\<close> draws without replacement and raises \<^verbatim>\<open>ValueError\<close>
  ("Cannot take a larger sample than population when 'replace=False'") when \<open>n\<close> exceeds
  the number of rows. Which rows the seeded generator picks is a parameter \<open>smp\<close>.
\<close>

definition df_sample ::
  "(nat \<Rightarrow> candidate list \<Rightarrow> candidate list) \<Rightarrow> nat \<Rightarrow> candidate list \<Rightarrow> error + candidate list" where
  "df_sample smp n cs = (if length cs < n then Inl ValueError else Inr (smp n cs))"

text \<open>
  Frame-level operations of the aggregator. \<^verbatim>\<open>pd.concat\<close> of the column-less frame with a
  frame is that frame. \<^verbatim>\<open>drop_duplicates\<close> returns a copy of an empty frame;
  \<^verbatim>\<open>sort_values(by='similarity')\<close> raises \<^verbatim>\<open>KeyError\<close> on a frame without that column.
  The sort of \<^verbatim>\<open>sort_values(by='similarity', ascending=False)\<close> (default
  \<^verbatim>\<open>kind='quicksort'\<close>) is a parameter \<open>srt\<close>.
\<close>

fun concat_frames :: "frame \<Rightarrow> frame \<Rightarrow> frame" where
  "concat_frames NoColumns f = f"
| "concat_frames (Rows xs) NoColumns = Rows xs"
| "concat_frames (Rows xs) (Rows ys) = Rows (xs @ ys)"

fun drop_duplicates_frame :: "frame \<Rightarrow> frame" where
  "drop_duplicates_frame NoColumns = NoColumns"
| "drop_duplicates_frame (Rows cs) = Rows (drop_duplicates cs)"

fun sort_values_frame :: "(candidate list \<Rightarrow> candidate list) \<Rightarrow> frame \<Rightarrow> error + frame" where
  "sort_values_frame srt NoColumns = Inl KeyError"
| "sort_values_frame srt (Rows cs) = Inr (Rows (srt cs))"

fun head_frame :: "int \<Rightarrow> frame \<Rightarrow> frame" where
  "head_frame n NoColumns = NoColumns"
| "head_frame n (Rows cs) = Rows (head n cs)"

section \<open>recommend\_based\_on\_genre\_artist\<close>

text \<open>Lines 29 to 35: one candidate row, cleaned and scored against the seed.\<close>

definition score_row :: "string \<Rightarrow> string \<Rightarrow> track \<Rightarrow> candidate" where
  "score_row genre artist r =
     (let g = clean_string (genre_top r);
          a = clean_string (artist_name r);
          s0 = 0;
          s1 = (if g = genre then s0 + 7 / 10 else s0);
          s2 = (if a = artist then s1 + 3 / 10 else s1)
      in \<lparr>c_track_id = track_id r, c_title = title r, c_genre_top = g, c_artist_name = a,
          similarity = s2\<rparr>)"

definition recommend_based_on_genre_artist ::
  "(candidate list \<Rightarrow> candidate list) \<Rightarrow> (nat \<Rightarrow> candidate list \<Rightarrow> candidate list) \<Rightarrow>
   int \<Rightarrow> track list \<Rightarrow> int \<Rightarrow> error + frame" where
  "recommend_based_on_genre_artist srt smp tid track_df top_k =
     (if tid \<notin> set (map track_id track_df) then Inr NoColumns
      else
        let input_track = hd (filter (\<lambda>r. track_id r = tid) track_df);
            genre = clean_string (genre_top input_track);
            artist = clean_string (artist_name input_track);
            candidates = map (score_row genre artist) (filter (\<lambda>r. track_id r \<noteq> tid) track_df);
            top = head (top_k * 2) (srt candidates)
        in case df_sample smp (min 5 (length candidates))
                  (filter (\<lambda>c. c_genre_top c \<noteq> genre) candidates) of
             Inl e \<Rightarrow> Inl e
           | Inr diverse \<Rightarrow>
               Inr (Rows (head (top_k + 3) (drop_duplicates (head top_k top @ diverse)))))"

section \<open>recommend\_from\_favorites and recommend\_from\_watch\_history\<close>

text \<open>The loop of lines 43 to 45; an exception of the scorer leaves the loop.\<close>

fun accumulate_recs ::
  "(candidate list \<Rightarrow> candidate list) \<Rightarrow> (nat \<Rightarrow> candidate list \<Rightarrow> candidate list) \<Rightarrow>
   int list \<Rightarrow> track list \<Rightarrow> frame \<Rightarrow> error + frame" where
  "accumulate_recs srt smp [] track_df all_recs = Inr all_recs"
| "accumulate_recs srt smp (tid # fav_ids) track_df all_recs =
     (case recommend_based_on_genre_artist srt smp tid track_df 3 of
        Inl e \<Rightarrow> Inl e
      | Inr recs \<Rightarrow> accumulate_recs srt smp fav_ids track_df (concat_frames all_recs recs))"

text \<open>Line 46.\<close>

definition finish_recs :: "(candidate list \<Rightarrow> candidate list) \<Rightarrow> int \<Rightarrow> frame \<Rightarrow> error + frame" where
  "finish_recs srt top_k all_recs =
     (case sort_values_frame srt (drop_duplicates_frame all_recs) of
        Inl e \<Rightarrow> Inl e
      | Inr sorted_recs \<Rightarrow> Inr (head_frame top_k sorted_recs))"

definition recommend_from_favorites ::
  "(candidate list \<Rightarrow> candidate list) \<Rightarrow> (nat \<Rightarrow> candidate list \<Rightarrow> candidate list) \<Rightarrow>
   int list \<Rightarrow> track list \<Rightarrow> int \<Rightarrow> error + frame" where
  "recommend_from_favorites srt smp fav_ids track_df top_k =
     (case accumulate_recs srt smp fav_ids track_df NoColumns of
        Inl e \<Rightarrow> Inl e
      | Inr all_recs \<Rightarrow> finish_recs srt top_k all_recs)"

definition recommend_from_watch_history ::
  "(candidate list \<Rightarrow> candidate list) \<Rightarrow> (nat \<Rightarrow> candidate list \<Rightarrow> candidate list) \<Rightarrow>
   int list \<Rightarrow> track list \<Rightarrow> int \<Rightarrow> error + frame" where
  "recommend_from_watch_history srt smp history_ids track_df top_k =
     recommend_from_favorites srt smp history_ids track_df top_k"

section \<open>What the library guarantees of the sort and of the draw\<close>

text \<open>
  \<^verbatim>\<open>sort_values(ascending=False)\<close> returns the same rows, ordered by descending key. The
  default algorithm is not a stable one, so nothing is said about rows with equal keys.
\<close>

definition sort_contract :: "(candidate list \<Rightarrow> candidate list) \<Rightarrow> bool" where
  "sort_contract srt =
     (\<forall>cs. mset (srt cs) = mset cs \<and> sorted_wrt (\<lambda>a b. similarity b \<le> similarity a) (srt cs))"

text \<open>A draw of \<open>n\<close> rows without replacement returns \<open>n\<close> rows at distinct positions.\<close>

definition sample_contract :: "(nat \<Rightarrow> candidate list \<Rightarrow> candidate list) \<Rightarrow> bool" where
  "sample_contract smp =
     (\<forall>n cs. n \<le> length cs \<longrightarrow> length (smp n cs) = n \<and> mset (smp n cs) \<subseteq># mset cs)"

text \<open>
  Instances: the stable descending sort and the draw of the first \<open>n\<close> rows.
\<close>

definition stable_sort_desc :: "candidate list \<Rightarrow> candidate list" where
  "stable_sort_desc cs = sort_key (\<lambda>c. - similarity c) cs"

definition first_rows :: "nat \<Rightarrow> candidate list \<Rightarrow> candidate list" where
  "first_rows n cs = take n cs"

text \<open>Another draw: the last \<open>n\<close> rows, the last one first.\<close>

definition last_rows :: "nat \<Rightarrow> candidate list \<Rightarrow> candidate list" where
  "last_rows n cs = take n (rev cs)"

section \<open>The library's default sort and seeded draw\<close>

text \<open>
  The algorithm behind \<^verbatim>\<open>sort_values(by='similarity', ascending=False)\<close>, which is not part
  of the repository: pandas reverses the column, calls numpy's
  \<^verbatim>\<open>argsort(kind='quicksort')\<close> and reverses the result. numpy's quicksort
  (\<^verbatim>\<open>npysort/quicksort.cpp\<close>, the code path without vector instructions) sorts an array
  of indices: a range of more than 17 entries is partitioned around the median of its first,
  middle and last entry, a shorter range is sorted by insertion. \<open>a\<close> is the array of
  indices, \<open>v\<close> the keys.
\<close>

definition swap_entries :: "nat list \<Rightarrow> nat \<Rightarrow> nat \<Rightarrow> nat list" where
  "swap_entries a i j = a[i := a ! j, j := a ! i]"

text \<open>\<^verbatim>\<open>while (v[*pi] < vp) ++pi\<close> and \<^verbatim>\<open>while (vp < v[*pj]) --pj\<close>, bounded by the array.\<close>

fun scan_up :: "nat \<Rightarrow> rat list \<Rightarrow> nat list \<Rightarrow> rat \<Rightarrow> nat \<Rightarrow> nat" where
  "scan_up 0 v a vp i = i"
| "scan_up (Suc fuel) v a vp i =
     (if i < length a \<and> v ! (a ! i) < vp then scan_up fuel v a vp (i + 1) else i)"

fun scan_down :: "nat \<Rightarrow> rat list \<Rightarrow> nat list \<Rightarrow> rat \<Rightarrow> nat \<Rightarrow> nat" where
  "scan_down 0 v a vp j = j"
| "scan_down (Suc fuel) v a vp j =
     (if 0 < j \<and> vp < v ! (a ! j) then scan_down fuel v a vp (j - 1) else j)"

text \<open>
  The partition loop: advance \<open>pi\<close>, retreat \<open>pj\<close>, stop when they meet, else swap the two
  entries and go on.
\<close>

fun partition_loop :: "nat \<Rightarrow> rat list \<Rightarrow> rat \<Rightarrow> nat list \<Rightarrow> nat \<Rightarrow> nat \<Rightarrow> nat list \<times> nat" where
  "partition_loop 0 v vp a i j = (a, i)"
| "partition_loop (Suc fuel) v vp a i j =
     (let i' = scan_up (length a) v a vp (i + 1);
          j' = scan_down (length a) v a vp (j - 1)
      in if j' \<le> i' then (a, i') else partition_loop fuel v vp (swap_entries a i' j') i' j')"

text \<open>
  One partition of the range \<open>pl..pr\<close>: order the first, middle and last entry, take the
  middle key as pivot, park the pivot entry at \<open>pr - 1\<close>, run the loop, and put the pivot
  entry at the meeting point, which is returned.
\<close>

definition partition_range :: "rat list \<Rightarrow> nat list \<Rightarrow> nat \<Rightarrow> nat \<Rightarrow> nat list \<times> nat" where
  "partition_range v a pl pr =
     (let pm = pl + (pr - pl) div 2;
          a1 = (if v ! (a ! pm) < v ! (a ! pl) then swap_entries a pm pl else a);
          a2 = (if v ! (a1 ! pr) < v ! (a1 ! pm) then swap_entries a1 pr pm else a1);
          a3 = (if v ! (a2 ! pm) < v ! (a2 ! pl) then swap_entries a2 pm pl else a2);
          vp = v ! (a3 ! pm);
          a4 = swap_entries a3 pm (pr - 1);
          (a5, i) = partition_loop (length a) v vp a4 pl (pr - 1)
      in (swap_entries a5 i (pr - 1), i))"

text \<open>The insertion sort of the range \<open>pl..pr\<close>: a stable sort of these entries by key.\<close>

definition insertion_sort_range :: "rat list \<Rightarrow> nat list \<Rightarrow> nat \<Rightarrow> nat \<Rightarrow> nat list" where
  "insertion_sort_range v a pl pr =
     take pl a @ sort_key (\<lambda>i. v ! i) (take (pr + 1 - pl) (drop pl a)) @ drop (pr + 1) a"

text \<open>
  The sort of the range \<open>pl..pr\<close>. The two parts of a partition are disjoint ranges, so the
  order in which the library's explicit stack visits them does not matter. \<open>d\<close> is the
  depth the library allows before it changes to heapsort, which is not modelled: the result
  is \<open>None\<close> then.
\<close>

fun aquicksort_range :: "nat \<Rightarrow> rat list \<Rightarrow> nat list \<Rightarrow> nat \<Rightarrow> nat \<Rightarrow> nat list option" where
  "aquicksort_range 0 v a pl pr =
     (if 16 < pr - pl then None else Some (insertion_sort_range v a pl pr))"
| "aquicksort_range (Suc d) v a pl pr =
     (if 16 < pr - pl then
        (case partition_range v a pl pr of
           (a', i) \<Rightarrow>
             (case aquicksort_range d v a' pl (i - 1) of
                None \<Rightarrow> None
              | Some a'' \<Rightarrow> aquicksort_range d v a'' (i + 1) pr))
      else Some (insertion_sort_range v a pl pr))"

fun npy_get_msb :: "nat \<Rightarrow> nat" where
  "npy_get_msb n = (if n < 2 then 0 else 1 + npy_get_msb (n div 2))"

definition numpy_argsort :: "rat list \<Rightarrow> nat list option" where
  "numpy_argsort v =
     (if v = [] then Some []
      else aquicksort_range (2 * npy_get_msb (length v)) v [0..<length v] 0 (length v - 1))"

text \<open>pandas' descending sort of the rows by similarity with that algorithm.\<close>

definition quicksort_desc :: "candidate list \<Rightarrow> candidate list" where
  "quicksort_desc cs =
     (let reversed = rev cs
      in case numpy_argsort (map similarity reversed) of
           None \<Rightarrow> cs
         | Some indexer \<Rightarrow> rev (map (\<lambda>i. reversed ! i) indexer))"

text \<open>
  \<^verbatim>\<open>sample(n, random_state=42)\<close> takes the rows at the first \<open>n\<close> positions of
  \<^verbatim>\<open>RandomState(42).permutation(len)\<close>. The permutation of the Mersenne Twister seeded
  with 42 is tabulated for the lengths 2, 5 and 17, the ones that occur below; no other
  length is used.
\<close>

definition permutation_42 :: "nat \<Rightarrow> nat list" where
  "permutation_42 n =
     (if n = 2 then [1, 0]
      else if n = 5 then [1, 4, 2, 0, 3]
      else if n = 17 then [0, 1, 5, 15, 11, 14, 8, 13, 2, 9, 16, 4, 7, 10, 12, 3, 6]
      else [])"

definition seeded_sample :: "nat \<Rightarrow> candidate list \<Rightarrow> candidate list" where
  "seeded_sample n cs = map (\<lambda>i. cs ! i) (take n (permutation_42 (length cs)))"

section \<open>Catalogs used in the examples\<close>

definition mk_track :: "int \<Rightarrow> string \<Rightarrow> string \<Rightarrow> track" where
  "mk_track i g a = \<lparr>track_id = i, title = None, genre_top = Some g, artist_name = Some a\<rparr>"

text \<open>The catalog of the scenarios of the specification.\<close>

definition spec_catalog :: "track list" where
  "spec_catalog =
     [mk_track 1 ''Rock'' ''A'', mk_track 2 ''Rock'' ''B'',
      mk_track 3 ''Jazz'' ''A'', mk_track 4 ''Jazz'' ''C'']"

text \<open>
  A catalog on which the draw of seed 1 succeeds: six of the eight candidates differ from
  the seed in genre. Track 2 matches the seed in genre and artist after cleaning, track 3
  in genre only, track 4 in artist only; track 9 has neither genre nor artist.
\<close>

definition mixed_catalog :: "track list" where
  "mixed_catalog =
     [mk_track 1 ''Rock'' ''A'', mk_track 2 '' rock '' ''a'', mk_track 3 ''ROCK'' ''B'',
      mk_track 4 ''Jazz'' '' A'', mk_track 5 ''Jazz'' ''C'', mk_track 6 ''Pop'' ''D'',
      mk_track 7 ''Folk'' ''E'', mk_track 8 ''Blues'' ''F'',
      \<lparr>track_id = 9, title = None, genre_top = None, artist_name = None\<rparr>]"

text \<open>A catalog whose two candidates for seed 1 both differ from it in genre.\<close>

definition small_catalog :: "track list" where
  "small_catalog = [mk_track 1 ''Rock'' ''A'', mk_track 2 ''Jazz'' ''B'', mk_track 3 ''Jazz'' ''C'']"

text \<open>
  A catalog whose five candidates for seed 1 all differ from it in genre; four of them
  share its artist.
\<close>

definition tie_catalog :: "track list" where
  "tie_catalog =
     [mk_track 1 ''Rock'' ''A'', mk_track 2 ''Jazz'' ''A'', mk_track 3 ''Jazz'' ''A'',
      mk_track 4 ''Jazz'' ''A'', mk_track 5 ''Jazz'' ''A'', mk_track 6 ''Jazz'' ''B'']"

text \<open>
  A catalog of five blocks of four tracks. The first track of a block is the seed used
  below; the second shares its genre and artist, the third its genre only, the fourth its
  artist only. Tracks of different blocks share nothing, so for each of these seeds the three
  best candidates have the three different similarities 1.0, 0.7 and 0.3 and every sort
  returns them in that order.
\<close>

definition block_catalog :: "track list" where
  "block_catalog =
     [mk_track 1 ''Rock'' ''A'', mk_track 2 ''Rock'' ''A'', mk_track 3 ''Rock'' ''F'',
      mk_track 4 ''Soul'' ''A'',
      mk_track 5 ''Jazz'' ''B'', mk_track 6 ''Jazz'' ''B'', mk_track 7 ''Jazz'' ''G'',
      mk_track 8 ''Funk'' ''B'',
      mk_track 9 ''Pop'' ''C'', mk_track 10 ''Pop'' ''C'', mk_track 11 ''Pop'' ''H'',
      mk_track 12 ''Punk'' ''C'',
      mk_track 13 ''Folk'' ''D'', mk_track 14 ''Folk'' ''D'', mk_track 15 ''Folk'' ''I'',
      mk_track 16 ''Metal'' ''D'',
      mk_track 17 ''Blues'' ''E'', mk_track 18 ''Blues'' ''E'', mk_track 19 ''Blues'' ''J'',
      mk_track 20 ''Disco'' ''E'']"

definition mk_candidate :: "int \<Rightarrow> string \<Rightarrow> string \<Rightarrow> rat \<Rightarrow> candidate" where
  "mk_candidate i g a s =
     \<lparr>c_track_id = i, c_title = None, c_genre_top = g, c_artist_name = a, similarity = s\<rparr>"

text \<open>
  What the scorer returns for the five seeds of the block catalog: the three best candidates,
  then the first three rows of the seeded draw from the 17 candidates of another genre.
\<close>

definition block_recs :: "int \<Rightarrow> candidate list" where
  "block_recs tid =
     (if tid = 1 then
        [mk_candidate 2 ''rock'' ''a'' 1, mk_candidate 3 ''rock'' ''f'' (7 / 10),
         mk_candidate 4 ''soul'' ''a'' (3 / 10), mk_candidate 5 ''jazz'' ''b'' 0,
         mk_candidate 9 ''pop'' ''c'' 0, mk_candidate 19 ''blues'' ''j'' 0]
      else if tid = 5 then
        [mk_candidate 6 ''jazz'' ''b'' 1, mk_candidate 7 ''jazz'' ''g'' (7 / 10),
         mk_candidate 8 ''funk'' ''b'' (3 / 10), mk_candidate 1 ''rock'' ''a'' 0,
         mk_candidate 2 ''rock'' ''a'' 0, mk_candidate 9 ''pop'' ''c'' 0]
      else if tid = 9 then
        [mk_candidate 10 ''pop'' ''c'' 1, mk_candidate 11 ''pop'' ''h'' (7 / 10),
         mk_candidate 12 ''punk'' ''c'' (3 / 10), mk_candidate 1 ''rock'' ''a'' 0,
         mk_candidate 2 ''rock'' ''a'' 0, mk_candidate 6 ''jazz'' ''b'' 0]
      else if tid = 13 then
        [mk_candidate 14 ''folk'' ''d'' 1, mk_candidate 15 ''folk'' ''i'' (7 / 10),
         mk_candidate 16 ''metal'' ''d'' (3 / 10), mk_candidate 1 ''rock'' ''a'' 0,
         mk_candidate 2 ''rock'' ''a'' 0, mk_candidate 6 ''jazz'' ''b'' 0]
      else if tid = 17 then
        [mk_candidate 18 ''blues'' ''e'' 1, mk_candidate 19 ''blues'' ''j'' (7 / 10),
         mk_candidate 20 ''disco'' ''e'' (3 / 10), mk_candidate 1 ''rock'' ''a'' 0,
         mk_candidate 2 ''rock'' ''a'' 0, mk_candidate 6 ''jazz'' ''b'' 0]
      else [])"

definition block_acc :: "candidate list" where
  "block_acc = block_recs 1 @ block_recs 5 @ block_recs 9 @ block_recs 13 @ block_recs 17"

text \<open>What the scorer returns for seed 1 of that catalog with the instances above.\<close>

definition mixed_recs :: "candidate list" where
  "mixed_recs =
     [mk_candidate 2 ''rock'' ''a'' 1, mk_candidate 3 ''rock'' ''b'' (7 / 10),
      mk_candidate 4 ''jazz'' ''a'' (3 / 10), mk_candidate 5 ''jazz'' ''c'' 0,
      mk_candidate 6 ''pop'' ''d'' 0, mk_candidate 7 ''folk'' ''e'' 0]"

text \<open>The locals of the scorer, named so that lemmas can speak of them.\<close>

definition seed_genre :: "int \<Rightarrow> track list \<Rightarrow> string" where
  "seed_genre tid track_df =
     clean_string (genre_top (hd (filter (\<lambda>r. track_id r = tid) track_df)))"

definition seed_artist :: "int \<Rightarrow> track list \<Rightarrow> string" where
  "seed_artist tid track_df =
     clean_string (artist_name (hd (filter (\<lambda>r. track_id r = tid) track_df)))"

definition candidates_of :: "int \<Rightarrow> track list \<Rightarrow> candidate list" where
  "candidates_of tid track_df =
     map (score_row (seed_genre tid track_df) (seed_artist tid track_df))
       (filter (\<lambda>r. track_id r \<noteq> tid) track_df)"

definition eligible_of :: "int \<Rightarrow> track list \<Rightarrow> candidate list" where
  "eligible_of tid track_df =
     filter (\<lambda>c. c_genre_top c \<noteq> seed_genre tid track_df) (candidates_of tid track_df)"

text \<open>
  The accumulated frame \<open>acc\<close> covers a frame \<open>f\<close> when appending \<open>f\<close> adds no new id:
  \<open>f\<close> is the column-less frame, or \<open>acc\<close> has columns and holds every id of \<open>f\<close>.
\<close>

definition covers :: "frame \<Rightarrow> frame \<Rightarrow> bool" where
  "covers acc f =
     (case f of
        NoColumns \<Rightarrow> True
      | Rows ys \<Rightarrow>
          (case acc of
             NoColumns \<Rightarrow> False
           | Rows xs \<Rightarrow> c_track_id ` set ys \<subseteq> c_track_id ` set xs))"

text \<open>
  The table of the specification: 1.0 when genre and artist both match, 0.7 for the genre
  alone, 0.3 for the artist alone, 0.0 otherwise.
\<close>

definition similarity_table :: "bool \<Rightarrow> bool \<Rightarrow> rat" where
  "similarity_table genre_match artist_match =
     (if genre_match \<and> artist_match then 1
      else if genre_match then 7 / 10
      else if artist_match then 3 / 10
      else 0)"

section \<open>Basic facts\<close>

lemmas clean_defs = clean_string_def lower_def lower_char_def upper_letters_def lower_letters_def
  strip_def is_space_def

lemmas catalog_defs = spec_catalog_def mixed_catalog_def small_catalog_def tie_catalog_def
  block_catalog_def mk_track_def

lemma scorer_unknown:
  "tid \<notin> track_id ` set track_df \<Longrightarrow>
   recommend_based_on_genre_artist srt smp tid track_df top_k = Inr NoColumns"
  by (simp add: recommend_based_on_genre_artist_def)

lemma scorer_known:
  "tid \<in> track_id ` set track_df \<Longrightarrow>
   recommend_based_on_genre_artist srt smp tid track_df top_k =
     (case df_sample smp (min 5 (length (candidates_of tid track_df))) (eligible_of tid track_df) of
        Inl e \<Rightarrow> Inl e
      | Inr diverse \<Rightarrow>
          Inr (Rows (head (top_k + 3)
            (drop_duplicates
              (head top_k (head (top_k * 2) (srt (candidates_of tid track_df))) @ diverse)))))"
  unfolding candidates_of_def eligible_of_def seed_genre_def seed_artist_def
  by (simp add: recommend_based_on_genre_artist_def Let_def)

lemma scorer_raises_iff:
  assumes "tid \<in> track_id ` set track_df"
  shows "recommend_based_on_genre_artist srt smp tid track_df top_k = Inl ValueError \<longleftrightarrow>
         length (eligible_of tid track_df) < min 5 (length (candidates_of tid track_df))"
  by (simp add: scorer_known [OF assms] df_sample_def)

lemma scorer_error_is_ValueError:
  "recommend_based_on_genre_artist srt smp tid track_df top_k = Inl e \<Longrightarrow> e = ValueError"
  by (cases "tid \<in> track_id ` set track_df")
     (auto simp: scorer_known scorer_unknown df_sample_def split: if_splits)

lemma concat_frames_NoColumns [simp]: "concat_frames f NoColumns = f"
  by (cases f) simp_all

lemma accumulate_unknown:
  "set fav_ids \<inter> track_id ` set track_df = {} \<Longrightarrow>
   accumulate_recs srt smp fav_ids track_df all_recs = Inr all_recs"
  by (induction fav_ids arbitrary: all_recs) (auto simp: scorer_unknown)

lemma spec_catalog_ids: "track_id ` set spec_catalog = {1, 2, 3, 4}"
  by (simp add: catalog_defs)

subsection \<open>head\<close>

lemma head_is_take: "\<exists>m. head n xs = take m xs"
  by (auto simp: head_def)

lemma set_head_subset: "set (head n xs) \<subseteq> set xs"
  by (auto simp: head_def dest: in_set_takeD)

lemma length_head_le: "0 \<le> n \<Longrightarrow> int (length (head n xs)) \<le> n"
  by (simp add: head_def)

lemma distinct_map_head: "distinct (map f xs) \<Longrightarrow> distinct (map f (head n xs))"
  by (auto simp: head_def take_map [symmetric])

lemma sorted_wrt_head: "sorted_wrt R xs \<Longrightarrow> sorted_wrt R (head n xs)"
  by (auto simp: head_def sorted_wrt_take)

subsection \<open>drop\_duplicates\<close>

lemma set_keep_first_subset: "set (keep_first seen cs) \<subseteq> set cs"
  by (induction cs arbitrary: seen) auto

lemma ids_keep_first: "c_track_id ` set (keep_first seen cs) = c_track_id ` set cs - seen"
  by (induction cs arbitrary: seen) auto

lemma distinct_keep_first: "distinct (map c_track_id (keep_first seen cs))"
  by (induction cs arbitrary: seen) (auto simp: ids_keep_first)

lemma keep_first_append:
  "keep_first seen (xs @ ys) = keep_first seen xs @ keep_first (seen \<union> c_track_id ` set xs) ys"
  by (induction xs arbitrary: seen) (auto simp: insert_absorb)

lemma keep_first_absorbed: "c_track_id ` set cs \<subseteq> seen \<Longrightarrow> keep_first seen cs = []"
  by (induction cs arbitrary: seen) auto

lemma keep_first_distinct_id:
  "distinct (map c_track_id cs) \<Longrightarrow> c_track_id ` set cs \<inter> seen = {} \<Longrightarrow> keep_first seen cs = cs"
  by (induction cs arbitrary: seen) auto

lemma distinct_drop_duplicates: "distinct (map c_track_id (drop_duplicates cs))"
  by (simp add: drop_duplicates_def distinct_keep_first)

lemma set_drop_duplicates_subset: "set (drop_duplicates cs) \<subseteq> set cs"
  by (simp add: drop_duplicates_def set_keep_first_subset)

lemma drop_duplicates_distinct_id: "distinct (map c_track_id cs) \<Longrightarrow> drop_duplicates cs = cs"
  by (simp add: drop_duplicates_def keep_first_distinct_id)

subsection \<open>The contracts and their instances\<close>

lemma sort_contract_set: "sort_contract srt \<Longrightarrow> set (srt cs) = set cs"
  by (metis sort_contract_def mset_eq_setD)

lemma sort_contract_sorted:
  "sort_contract srt \<Longrightarrow> sorted_wrt (\<lambda>a b. similarity b \<le> similarity a) (srt cs)"
  by (simp add: sort_contract_def)

lemma sample_contract_set:
  "sample_contract smp \<Longrightarrow> n \<le> length cs \<Longrightarrow> set (smp n cs) \<subseteq> set cs"
  by (metis sample_contract_def set_mset_mono set_mset_mset)

lemma sort_contract_stable: "sort_contract stable_sort_desc"
proof -
  have "sorted_wrt (\<lambda>a b. similarity b \<le> similarity a) (sort_key (\<lambda>c. - similarity c) cs)" for cs :: "candidate list"
    using sorted_sort_key [of "\<lambda>c. - similarity c" cs] by (simp add: sorted_map)
  then show ?thesis by (simp add: sort_contract_def stable_sort_desc_def)
qed

lemma mset_take_subset: "mset (take n xs) \<subseteq># mset xs"
  by (metis append_take_drop_id mset_subset_eq_add_left mset_append)

lemma sample_contract_first_rows: "sample_contract first_rows"
  by (simp add: sample_contract_def first_rows_def mset_take_subset)

lemma sample_contract_last_rows: "sample_contract last_rows"
proof -
  have "mset (take n (rev cs)) \<subseteq># mset cs" for n and cs :: "candidate list"
    using mset_take_subset [of n "rev cs"] by simp
  then show ?thesis by (simp add: sample_contract_def last_rows_def)
qed

subsection \<open>The rows the scorer returns\<close>

lemma candidates_of_rows:
  "c \<in> set (candidates_of tid track_df) \<Longrightarrow>
   \<exists>r \<in> set track_df. track_id r \<noteq> tid \<and>
     c = score_row (seed_genre tid track_df) (seed_artist tid track_df) r"
  by (auto simp: candidates_of_def)

lemma score_row_fields:
  "c_track_id (score_row genre artist r) = track_id r"
  "c_title (score_row genre artist r) = title r"
  "c_genre_top (score_row genre artist r) = clean_string (genre_top r)"
  "c_artist_name (score_row genre artist r) = clean_string (artist_name r)"
  by (simp_all add: score_row_def Let_def)

lemma candidates_of_ids:
  "map c_track_id (candidates_of tid track_df) =
   map track_id (filter (\<lambda>r. track_id r \<noteq> tid) track_df)"
  by (simp add: candidates_of_def score_row_fields comp_def)

lemma seed_not_candidate: "tid \<notin> c_track_id ` set (candidates_of tid track_df)"
proof -
  have "c_track_id ` set (candidates_of tid track_df) =
        set (map track_id (filter (\<lambda>r. track_id r \<noteq> tid) track_df))"
    by (simp only: candidates_of_ids [symmetric] set_map)
  then show ?thesis by auto
qed

lemma scorer_rows_subset:
  assumes srt: "sort_contract srt" and smp: "sample_contract smp"
    and res: "recommend_based_on_genre_artist srt smp tid track_df top_k = Inr f"
  shows "set (frame_rows f) \<subseteq> set (candidates_of tid track_df)"
proof (cases "tid \<in> track_id ` set track_df")
  case False
  with res show ?thesis by (simp add: scorer_unknown)
next
  case True
  let ?cands = "candidates_of tid track_df"
  let ?elig = "eligible_of tid track_df"
  let ?n = "min 5 (length ?cands)"
  from res True have n: "?n \<le> length ?elig"
    by (auto simp: scorer_known df_sample_def split: if_splits)
  then have "\<not> length ?elig < ?n" by linarith
  then have "df_sample smp ?n ?elig = Inr (smp ?n ?elig)"
    unfolding df_sample_def by (rule if_not_P)
  with res True have f: "f = Rows (head (top_k + 3)
      (drop_duplicates (head top_k (head (top_k * 2) (srt ?cands)) @ smp ?n ?elig)))"
    by (simp add: scorer_known)
  have "set (smp ?n ?elig) \<subseteq> set ?elig"
    using smp n by (rule sample_contract_set)
  moreover have "set ?elig \<subseteq> set ?cands"
    by (simp add: eligible_of_def)
  ultimately have diverse: "set (smp ?n ?elig) \<subseteq> set ?cands"
    by (rule subset_trans)
  have "set (head top_k (head (top_k * 2) (srt ?cands))) \<subseteq> set (head (top_k * 2) (srt ?cands))"
    by (rule set_head_subset)
  also have "\<dots> \<subseteq> set (srt ?cands)"
    by (rule set_head_subset)
  also have "\<dots> = set ?cands"
    using srt by (rule sort_contract_set)
  finally have top: "set (head top_k (head (top_k * 2) (srt ?cands))) \<subseteq> set ?cands" .
  have "set (frame_rows f) \<subseteq>
        set (drop_duplicates (head top_k (head (top_k * 2) (srt ?cands)) @ smp ?n ?elig))"
    unfolding f frame_rows.simps by (rule set_head_subset)
  also have "\<dots> \<subseteq> set (head top_k (head (top_k * 2) (srt ?cands)) @ smp ?n ?elig)"
    by (rule set_drop_duplicates_subset)
  also have "\<dots> \<subseteq> set ?cands"
    using top diverse by simp
  finally show ?thesis .
qed

lemma scorer_rows_distinct:
  assumes "recommend_based_on_genre_artist srt smp tid track_df top_k = Inr f"
  shows "distinct (map c_track_id (frame_rows f))"
proof (cases "tid \<in> track_id ` set track_df")
  case False
  with assms show ?thesis by (simp add: scorer_unknown)
next
  case True
  with assms show ?thesis
    by (auto simp: scorer_known distinct_map_head distinct_drop_duplicates split: sum.splits)
qed

lemma scorer_rows_length:
  assumes "recommend_based_on_genre_artist srt smp tid track_df top_k = Inr f"
    and "- 3 \<le> top_k"
  shows "int (length (frame_rows f)) \<le> top_k + 3"
proof (cases "tid \<in> track_id ` set track_df")
  case False
  with assms show ?thesis by (simp add: scorer_unknown)
next
  case True
  have "int (length (head (top_k + 3) xs)) \<le> top_k + 3" for xs :: "candidate list"
    using assms(2) by (intro length_head_le) simp
  with True assms(1) show ?thesis
    by (auto simp: scorer_known split: sum.splits)
qed

subsection \<open>The similarity of a row\<close>

lemma score_row_similarity:
  "similarity (score_row genre artist r) =
     similarity_table (clean_string (genre_top r) = genre) (clean_string (artist_name r) = artist)"
  by (simp add: score_row_def Let_def similarity_table_def)

subsection \<open>clean\_string\<close>

lemma upper_letter_codes:
  "map of_char upper_letters = ([65..<91] @ [192..<215] @ [216..<223] :: nat list)"
  by (simp add: upper_letters_def upt_conv_Cons)

lemma lower_letter_codes:
  "map of_char lower_letters = map (\<lambda>n. n + 32) ([65..<91] @ [192..<215] @ [216..<223] :: nat list)"
  by (simp add: lower_letters_def upt_conv_Cons)

lemma whitespace_codes:
  "map of_char whitespace_chars = ([9, 10, 11, 12, 13, 28, 29, 30, 31, 32, 133, 160] :: nat list)"
  by (simp add: whitespace_chars_def)

lemma mem_iff_code: "c \<in> set cs \<longleftrightarrow> (of_char c :: nat) \<in> set (map of_char cs)"
  by (auto simp: image_iff)

lemma is_space_iff: "is_space c \<longleftrightarrow> c \<in> set whitespace_chars"
  unfolding mem_iff_code [of c whitespace_chars] whitespace_codes is_space_def Let_def
  by (simp) arith

lemma upper_letters_distinct: "distinct upper_letters"
proof -
  have "distinct (map of_char upper_letters :: nat list)"
    unfolding upper_letter_codes by simp
  then show ?thesis by (simp add: distinct_map)
qed

lemma letters_length: "length upper_letters = length lower_letters"
  by (simp add: upper_letters_def lower_letters_def)

lemma is_upper_iff: "c \<in> set upper_letters \<longleftrightarrow> is_upper_code (of_char c)"
  unfolding mem_iff_code [of c upper_letters] upper_letter_codes is_upper_code_def
  by (simp only: set_append set_upt Un_iff atLeastLessThan_iff) arith

lemma lower_char_code:
  "lower_char c = (if is_upper_code (of_char c) then char_of ((of_char c :: nat) + 32) else c)"
proof (cases "c \<in> set upper_letters")
  case False
  then have "map_of (zip upper_letters lower_letters) c = None"
    by (simp add: map_of_zip_is_None letters_length)
  then have "lower_char c = c"
    by (simp add: lower_char_def)
  moreover from False have "\<not> is_upper_code (of_char c)"
    using is_upper_iff by blast
  ultimately show ?thesis by simp
next
  case True
  then obtain i where i: "i < length upper_letters" and c: "c = upper_letters ! i"
    by (auto simp: in_set_conv_nth)
  have "map_of (zip upper_letters lower_letters) c = Some (lower_letters ! i)"
    unfolding c using letters_length upper_letters_distinct i
    by (simp add: map_of_zip_nth)
  then have low: "lower_char c = lower_letters ! i"
    by (simp add: lower_char_def)
  have "(of_char (lower_letters ! i) :: nat) = map of_char lower_letters ! i"
    using i letters_length by simp
  also have "\<dots> = (map of_char upper_letters :: nat list) ! i + 32"
    unfolding lower_letter_codes upper_letter_codes [symmetric]
    using i by simp
  also have "\<dots> = of_char c + 32"
    using i by (simp add: c)
  finally have "char_of ((of_char c :: nat) + 32) = lower_letters ! i"
    by (metis char_of_char)
  moreover from True have "is_upper_code (of_char c)"
    using is_upper_iff by blast
  ultimately show ?thesis using low by simp
qed

lemma strip_decomposition:
  "\<exists>pre post. s = pre @ strip s @ post \<and> set pre \<subseteq> set whitespace_chars \<and>
     set post \<subseteq> set whitespace_chars"
proof -
  let ?t = "dropWhile is_space s"
  let ?post = "rev (takeWhile is_space (rev ?t))"
  have "?t = rev (takeWhile is_space (rev ?t) @ dropWhile is_space (rev ?t))"
    by (simp only: takeWhile_dropWhile_id rev_rev_ident)
  then have t: "?t = strip s @ ?post"
    by (simp only: rev_append strip_def)
  have "s = takeWhile is_space s @ ?t"
    by (simp only: takeWhile_dropWhile_id)
  with t have "s = takeWhile is_space s @ strip s @ ?post"
    by (simp only:)
  moreover have "set (takeWhile is_space s) \<subseteq> set whitespace_chars"
    by (auto dest: set_takeWhileD simp: is_space_iff)
  moreover have "set ?post \<subseteq> set whitespace_chars"
    by (auto dest: set_takeWhileD simp: is_space_iff)
  ultimately show ?thesis by blast
qed

lemma strip_ends:
  assumes "strip s \<noteq> []"
  shows "hd (strip s) \<notin> set whitespace_chars" and "last (strip s) \<notin> set whitespace_chars"
proof -
  let ?t = "dropWhile is_space s"
  let ?u = "dropWhile is_space (rev ?t)"
  from assms have u: "?u \<noteq> []" by (simp add: strip_def)
  have t: "?t \<noteq> []"
  proof
    assume e: "?t = []"
    have "?u = []" unfolding e by simp
    with u show False by (rule notE)
  qed
  have "\<not> is_space (hd ?u)" using u by (rule hd_dropWhile)
  then show "last (strip s) \<notin> set whitespace_chars"
    using u by (simp add: strip_def last_rev is_space_iff)
  have "rev ?t = takeWhile is_space (rev ?t) @ ?u"
    by (simp only: takeWhile_dropWhile_id)
  then have "last (rev ?t) = last ?u" using u by (metis last_appendR)
  then have "last ?u = hd ?t" using t by (simp add: last_rev)
  moreover have "\<not> is_space (hd ?t)" using t by (rule hd_dropWhile)
  ultimately show "hd (strip s) \<notin> set whitespace_chars"
    using u by (simp add: strip_def hd_rev is_space_iff)
qed

lemma clean_string_examples:
  "clean_string None = []"
  "clean_string (Some ''Rock'') = ''rock''" "clean_string (Some '' rock '') = ''rock''"
  "clean_string (Some ''ROCK'') = ''rock''" "clean_string (Some ''Jazz'') = ''jazz''"
  "clean_string (Some ''Pop'') = ''pop''" "clean_string (Some ''Folk'') = ''folk''"
  "clean_string (Some ''Blues'') = ''blues''" "clean_string (Some ''Soul'') = ''soul''"
  "clean_string (Some ''Funk'') = ''funk''" "clean_string (Some ''Punk'') = ''punk''"
  "clean_string (Some ''Metal'') = ''metal''" "clean_string (Some ''Disco'') = ''disco''"
  "clean_string (Some ''A'') = ''a''" "clean_string (Some '' A'') = ''a''"
  "clean_string (Some ''a'') = ''a''" "clean_string (Some ''B'') = ''b''"
  "clean_string (Some ''C'') = ''c''" "clean_string (Some ''D'') = ''d''"
  "clean_string (Some ''E'') = ''e''" "clean_string (Some ''F'') = ''f''"
  "clean_string (Some ''G'') = ''g''" "clean_string (Some ''H'') = ''h''"
  "clean_string (Some ''I'') = ''i''" "clean_string (Some ''J'') = ''j''"
  by (simp_all add: clean_defs)

lemma clean_latin1_example:
  "clean_string (Some [CHR 0xA0, CHR 0xC9, CHR ''T'', CHR 0xC9, CHR 0x85]) = [CHR 0xE9, CHR ''t'', CHR 0xE9]"
  by (simp add: clean_defs)

section \<open>The claims\<close>

text \<open>
  C1. The aggregator applied to no seed, or to seeds that are all absent from the catalog,
  is claimed to return an empty sequence without error. In the code every scorer call then
  returns \<^verbatim>\<open>pd.DataFrame()\<close>, the accumulated frame has no columns, and
  \<^verbatim>\<open>sort_values(by='similarity')\<close> of line 46 raises \<^verbatim>\<open>KeyError\<close>: the aggregator
  raises instead of returning.
\<close>

theorem aggregate_without_known_seed_raises:
  assumes "set fav_ids \<inter> track_id ` set track_df = {}"
  shows "recommend_from_favorites srt smp fav_ids track_df top_k = Inl KeyError"
  by (simp add: recommend_from_favorites_def accumulate_unknown [OF assms] finish_recs_def)

theorem aggregate_without_known_seed_raises_witness:
  "set [] \<inter> track_id ` set spec_catalog = {} \<and>
   recommend_from_favorites stable_sort_desc first_rows [] spec_catalog 5 = Inl KeyError \<and>
   set [999] \<inter> track_id ` set spec_catalog = {} \<and>
   recommend_from_favorites stable_sort_desc first_rows [999] spec_catalog 5 = Inl KeyError"
proof -
  have a: "set [] \<inter> track_id ` set spec_catalog = {}" by simp
  have b: "set [999] \<inter> track_id ` set spec_catalog = {}" by (simp add: spec_catalog_ids)
  show ?thesis
    using aggregate_without_known_seed_raises [OF a, of stable_sort_desc first_rows 5]
      aggregate_without_known_seed_raises [OF b, of stable_sort_desc first_rows 5]
    by (simp add: spec_catalog_ids)
qed

text \<open>
  C2. The scorer is claimed to raise no error for a seed of the catalog, drawing all the
  genre-diverse candidates when fewer than 5 exist. In the code the draw asks for
  \<^verbatim>\<open>min(5, len(candidates))\<close> rows, counted on all candidates and not on the
  genre-diverse ones it draws from; on the catalog of the specification's scenarios, with
  seed 1, it asks for 3 rows of the 2 genre-diverse candidates and \<^verbatim>\<open>sample\<close> raises
  \<^verbatim>\<open>ValueError\<close>, whatever the sort, the random source and \<open>top_k\<close>.
\<close>

theorem scorer_raises_on_spec_catalog:
  "recommend_based_on_genre_artist srt smp 1 spec_catalog top_k = Inl ValueError"
  by (simp add: recommend_based_on_genre_artist_def catalog_defs score_row_def
      clean_string_examples df_sample_def Let_def)

text \<open>
  C8. For a seed that is not in the catalog the scorer returns the empty frame
  \<^verbatim>\<open>pd.DataFrame()\<close> and raises nothing, and in the aggregator's loop such a seed leaves
  the accumulated frame as it was.
\<close>

theorem scorer_unknown_seed_empty:
  assumes "tid \<notin> track_id ` set track_df"
  shows "recommend_based_on_genre_artist srt smp tid track_df top_k = Inr NoColumns \<and>
         frame_rows NoColumns = [] \<and>
         accumulate_recs srt smp [tid] track_df all_recs = Inr all_recs"
  using assms by (simp add: scorer_unknown)

theorem scorer_unknown_seed_empty_witness:
  "999 \<notin> track_id ` set spec_catalog \<and>
   recommend_based_on_genre_artist stable_sort_desc first_rows 999 spec_catalog 5 = Inr NoColumns \<and>
   frame_rows NoColumns = [] \<and>
   accumulate_recs stable_sort_desc first_rows [999] spec_catalog (Rows []) = Inr (Rows [])"
proof -
  have a: "999 \<notin> track_id ` set spec_catalog" by (simp add: spec_catalog_ids)
  show ?thesis
    using scorer_unknown_seed_empty [OF a, of stable_sort_desc first_rows 5 "Rows []"]
    by (simp add: spec_catalog_ids)
qed

text \<open>
  C9. \<^verbatim>\<open>recommend_from_watch_history\<close> returns what \<^verbatim>\<open>recommend_from_favorites\<close>
  returns, errors included.
\<close>

theorem watch_history_is_favorites:
  "recommend_from_watch_history srt smp seed_ids track_df top_k =
   recommend_from_favorites srt smp seed_ids track_df top_k"
  by (simp add: recommend_from_watch_history_def)

lemmas eval_defs = recommend_based_on_genre_artist_def catalog_defs score_row_def
  clean_string_examples df_sample_def Let_def stable_sort_desc_def first_rows_def
  last_rows_def head_def
  drop_duplicates_def mk_candidate_def mixed_recs_def

lemma mixed_scorer_eval:
  "recommend_based_on_genre_artist stable_sort_desc first_rows 1 mixed_catalog 3 =
   Inr (Rows mixed_recs)"
  by (simp add: eval_defs)

lemma mixed_seed:
  "seed_genre 1 mixed_catalog = ''rock''" "seed_artist 1 mixed_catalog = ''a''"
  by (simp_all add: seed_genre_def seed_artist_def catalog_defs clean_string_examples)

lemma candidates_of_table:
  "candidates_of tid track_df =
     map (\<lambda>r. \<lparr>c_track_id = track_id r, c_title = title r,
                c_genre_top = clean_string (genre_top r),
                c_artist_name = clean_string (artist_name r),
                similarity =
                  similarity_table (clean_string (genre_top r) = seed_genre tid track_df)
                    (clean_string (artist_name r) = seed_artist tid track_df)\<rparr>)
       (filter (\<lambda>r. track_id r \<noteq> tid) track_df)"
  by (simp add: candidates_of_def score_row_def Let_def similarity_table_def)

lemma scorer_from_candidates:
  "recommend_based_on_genre_artist srt smp tid track_df top_k =
     (if tid \<in> track_id ` set track_df then
        (case df_sample smp (min 5 (length (candidates_of tid track_df)))
                (eligible_of tid track_df) of
           Inl e \<Rightarrow> Inl e
         | Inr diverse \<Rightarrow>
             Inr (Rows (head (top_k + 3)
               (drop_duplicates
                 (head top_k (head (top_k * 2) (srt (candidates_of tid track_df))) @ diverse)))))
      else Inr NoColumns)"
  by (cases "tid \<in> track_id ` set track_df") (simp_all add: scorer_known scorer_unknown)

lemma clean_string_trims_and_lowers:
  "\<exists>pre mid post. s = pre @ mid @ post \<and> set pre \<subseteq> set whitespace_chars \<and>
     set post \<subseteq> set whitespace_chars \<and>
     (mid = [] \<or> hd mid \<notin> set whitespace_chars \<and> last mid \<notin> set whitespace_chars) \<and>
     clean_string (Some s) =
       map (\<lambda>c. if is_upper_code (of_char c) then char_of ((of_char c :: nat) + 32) else c) mid"
proof -
  obtain pre post where d: "s = pre @ strip s @ post" "set pre \<subseteq> set whitespace_chars"
      "set post \<subseteq> set whitespace_chars"
    using strip_decomposition by blast
  have "strip s = [] \<or> hd (strip s) \<notin> set whitespace_chars \<and> last (strip s) \<notin> set whitespace_chars"
    using strip_ends [of s] by blast
  moreover have "clean_string (Some s) =
      map (\<lambda>c. if is_upper_code (of_char c) then char_of ((of_char c :: nat) + 32) else c) (strip s)"
    by (simp add: clean_string_def lower_def lower_char_code)
  ultimately show ?thesis using d by blast
qed

text \<open>
  C3. For every catalog, seed and candidate (every catalog row whose id is not the seed's),
  the scorer computes the candidate's row with genre and artist normalized and with the
  similarity of the table: 1.0 when normalized genre and artist both equal the seed's, 0.7
  for the genre alone, 0.3 for the artist alone, 0.0 for neither. The scorer's result is
  computed from exactly these candidate rows, and every row it returns is one of them.
  Normalization maps a missing value to the empty string and any other to its text without
  the whitespace at both ends, every capital letter replaced by its small letter.
\<close>

theorem scorer_similarity_is_table:
  "candidates_of tid track_df =
     map (\<lambda>r. \<lparr>c_track_id = track_id r, c_title = title r,
                c_genre_top = clean_string (genre_top r),
                c_artist_name = clean_string (artist_name r),
                similarity =
                  similarity_table (clean_string (genre_top r) = seed_genre tid track_df)
                    (clean_string (artist_name r) = seed_artist tid track_df)\<rparr>)
       (filter (\<lambda>r. track_id r \<noteq> tid) track_df) \<and>
   recommend_based_on_genre_artist srt smp tid track_df top_k =
     (if tid \<in> track_id ` set track_df then
        (case df_sample smp (min 5 (length (candidates_of tid track_df)))
                (eligible_of tid track_df) of
           Inl e \<Rightarrow> Inl e
         | Inr diverse \<Rightarrow>
             Inr (Rows (head (top_k + 3)
               (drop_duplicates
                 (head top_k (head (top_k * 2) (srt (candidates_of tid track_df))) @ diverse)))))
      else Inr NoColumns) \<and>
   (\<forall>f. sort_contract srt \<and> sample_contract smp \<and>
        recommend_based_on_genre_artist srt smp tid track_df top_k = Inr f \<longrightarrow>
        set (frame_rows f) \<subseteq> set (candidates_of tid track_df)) \<and>
   similarity_table True True = 1 \<and> similarity_table True False = 7 / 10 \<and>
   similarity_table False True = 3 / 10 \<and> similarity_table False False = 0 \<and>
   clean_string None = [] \<and>
   (\<forall>s. \<exists>pre mid post. s = pre @ mid @ post \<and> set pre \<subseteq> set whitespace_chars \<and>
        set post \<subseteq> set whitespace_chars \<and>
        (mid = [] \<or> hd mid \<notin> set whitespace_chars \<and> last mid \<notin> set whitespace_chars) \<and>
        clean_string (Some s) =
          map (\<lambda>c. if is_upper_code (of_char c) then char_of ((of_char c :: nat) + 32) else c) mid)"
proof (intro conjI allI impI)
  show "candidates_of tid track_df =
     map (\<lambda>r. \<lparr>c_track_id = track_id r, c_title = title r,
                c_genre_top = clean_string (genre_top r),
                c_artist_name = clean_string (artist_name r),
                similarity =
                  similarity_table (clean_string (genre_top r) = seed_genre tid track_df)
                    (clean_string (artist_name r) = seed_artist tid track_df)\<rparr>)
       (filter (\<lambda>r. track_id r \<noteq> tid) track_df)"
    by (rule candidates_of_table)
  show "recommend_based_on_genre_artist srt smp tid track_df top_k =
     (if tid \<in> track_id ` set track_df then
        (case df_sample smp (min 5 (length (candidates_of tid track_df)))
                (eligible_of tid track_df) of
           Inl e \<Rightarrow> Inl e
         | Inr diverse \<Rightarrow>
             Inr (Rows (head (top_k + 3)
               (drop_duplicates
                 (head top_k (head (top_k * 2) (srt (candidates_of tid track_df))) @ diverse)))))
      else Inr NoColumns)"
    by (rule scorer_from_candidates)
  show "set (frame_rows f) \<subseteq> set (candidates_of tid track_df)"
    if "sort_contract srt \<and> sample_contract smp \<and>
        recommend_based_on_genre_artist srt smp tid track_df top_k = Inr f" for f
    using that scorer_rows_subset by blast
  show "\<exists>pre mid post. s = pre @ mid @ post \<and> set pre \<subseteq> set whitespace_chars \<and>
        set post \<subseteq> set whitespace_chars \<and>
        (mid = [] \<or> hd mid \<notin> set whitespace_chars \<and> last mid \<notin> set whitespace_chars) \<and>
        clean_string (Some s) =
          map (\<lambda>c. if is_upper_code (of_char c) then char_of ((of_char c :: nat) + 32) else c) mid"
    for s
    by (rule clean_string_trims_and_lowers)
qed (simp_all add: similarity_table_def clean_string_def)

theorem scorer_similarity_is_table_witness:
  "sort_contract stable_sort_desc \<and> sample_contract first_rows \<and>
   recommend_based_on_genre_artist stable_sort_desc first_rows 1 mixed_catalog 3 =
     Inr (Rows mixed_recs) \<and>
   set mixed_recs \<subseteq> set (candidates_of 1 mixed_catalog) \<and>
   map c_track_id (candidates_of 1 mixed_catalog) = [2, 3, 4, 5, 6, 7, 8, 9] \<and>
   map similarity (candidates_of 1 mixed_catalog) = [1, 7 / 10, 3 / 10, 0, 0, 0, 0, 0]"
proof -
  note table = scorer_similarity_is_table [of 1 mixed_catalog stable_sort_desc first_rows 3]
  from table have
    "sort_contract stable_sort_desc \<and> sample_contract first_rows \<and>
       recommend_based_on_genre_artist stable_sort_desc first_rows 1 mixed_catalog 3 =
         Inr (Rows mixed_recs) \<longrightarrow>
     set (frame_rows (Rows mixed_recs)) \<subseteq> set (candidates_of 1 mixed_catalog)"
    by (elim conjE allE [of _ "Rows mixed_recs"])
  then have sub: "set mixed_recs \<subseteq> set (candidates_of 1 mixed_catalog)"
    using sort_contract_stable sample_contract_first_rows mixed_scorer_eval by simp
  from table have cands: "candidates_of 1 mixed_catalog =
     map (\<lambda>r. \<lparr>c_track_id = track_id r, c_title = title r,
                c_genre_top = clean_string (genre_top r),
                c_artist_name = clean_string (artist_name r),
                similarity =
                  similarity_table (clean_string (genre_top r) = seed_genre 1 mixed_catalog)
                    (clean_string (artist_name r) = seed_artist 1 mixed_catalog)\<rparr>)
       (filter (\<lambda>r. track_id r \<noteq> 1) mixed_catalog)"
    by (rule conjunct1)
  have "map c_track_id (candidates_of 1 mixed_catalog) = [2, 3, 4, 5, 6, 7, 8, 9]"
    and "map similarity (candidates_of 1 mixed_catalog) = [1, 7 / 10, 3 / 10, 0, 0, 0, 0, 0]"
    unfolding cands mixed_seed
    by (simp_all add: catalog_defs clean_string_examples similarity_table_def)
  with sub show ?thesis
    using sort_contract_stable sample_contract_first_rows mixed_scorer_eval by simp
qed

text \<open>
  C6. The rows the scorer returns have pairwise different ids, none has the seed's id, and
  there are at most \<open>top_k + 3\<close> of them. The bound is proved for every \<open>top_k \<ge> -3\<close>,
  which covers the scorer's domain (\<open>top_k\<close> a positive integer; the aggregator always
  passes 3); uniqueness and the absence of the seed hold for every \<open>top_k\<close>.
\<close>

theorem scorer_output_shape:
  assumes "sort_contract srt" and "sample_contract smp"
    and "recommend_based_on_genre_artist srt smp tid track_df top_k = Inr f"
  shows "distinct (map c_track_id (frame_rows f)) \<and>
         tid \<notin> c_track_id ` set (frame_rows f) \<and>
         (- 3 \<le> top_k \<longrightarrow> int (length (frame_rows f)) \<le> top_k + 3)"
proof -
  have "distinct (map c_track_id (frame_rows f))"
    using assms(3) by (rule scorer_rows_distinct)
  moreover have "tid \<notin> c_track_id ` set (frame_rows f)"
    using scorer_rows_subset [OF assms] seed_not_candidate [of tid track_df] by blast
  moreover have "- 3 \<le> top_k \<longrightarrow> int (length (frame_rows f)) \<le> top_k + 3"
    using scorer_rows_length [OF assms(3)] by simp
  ultimately show ?thesis by simp
qed

theorem scorer_output_shape_witness:
  "recommend_based_on_genre_artist stable_sort_desc first_rows 1 mixed_catalog 3 =
     Inr (Rows mixed_recs) \<and>
   distinct (map c_track_id mixed_recs) \<and> 1 \<notin> c_track_id ` set mixed_recs \<and>
   (- 3 :: int) \<le> 3 \<and> int (length mixed_recs) \<le> 3 + 3"
  using scorer_output_shape [OF sort_contract_stable sample_contract_first_rows mixed_scorer_eval]
    mixed_scorer_eval
  by simp

subsection \<open>The result of the aggregator\<close>

lemma finish_recs_Rows:
  "finish_recs srt top_k (Rows acc) = Inr (Rows (head top_k (srt (drop_duplicates acc))))"
  by (simp add: finish_recs_def)

lemma finish_recs_NoColumns: "finish_recs srt top_k NoColumns = Inl KeyError"
  by (simp add: finish_recs_def)

lemma aggregate_result:
  assumes "recommend_from_favorites srt smp seed_ids track_df top_k = Inr f"
  shows "\<exists>acc. accumulate_recs srt smp seed_ids track_df NoColumns = Inr (Rows acc) \<and>
           f = Rows (head top_k (srt (drop_duplicates acc)))"
proof (cases "accumulate_recs srt smp seed_ids track_df NoColumns")
  case (Inl e)
  with assms show ?thesis by (simp add: recommend_from_favorites_def)
next
  case (Inr all_recs)
  with assms show ?thesis
    by (cases all_recs)
       (simp_all add: recommend_from_favorites_def finish_recs_Rows finish_recs_NoColumns)
qed

lemma sort_contract_distinct_ids:
  assumes "sort_contract srt" and "distinct (map c_track_id cs)"
  shows "distinct (map c_track_id (srt cs))"
proof -
  have "mset (srt cs) = mset cs"
    using assms(1) by (simp add: sort_contract_def)
  then have "mset (map c_track_id (srt cs)) = mset (map c_track_id cs)"
    by (metis mset_map)
  then show ?thesis
    using assms(2) by (metis mset_eq_imp_distinct_iff)
qed

lemma small_aggregate_eval_negative:
  "recommend_from_favorites stable_sort_desc first_rows [1] small_catalog (- 1) =
   Inr (Rows [mk_candidate 2 ''jazz'' ''b'' 0])"
  by (simp add: recommend_from_favorites_def finish_recs_def eval_defs)

lemma mixed_scorer_eval_4:
  "recommend_based_on_genre_artist stable_sort_desc first_rows 4 mixed_catalog 3 =
   Inr (Rows [mk_candidate 5 ''jazz'' ''c'' (7 / 10), mk_candidate 1 ''rock'' ''a'' (3 / 10),
     mk_candidate 2 ''rock'' ''a'' (3 / 10), mk_candidate 3 ''rock'' ''b'' 0,
     mk_candidate 6 ''pop'' ''d'' 0, mk_candidate 7 ''folk'' ''e'' 0])"
  by (simp add: eval_defs)

lemma mixed_catalog_ids: "track_id ` set mixed_catalog = {1, 2, 3, 4, 5, 6, 7, 8, 9}"
  by (simp add: catalog_defs)

lemma mixed_aggregate_eval:
  "recommend_from_favorites stable_sort_desc first_rows [1, 4, 1, 999, 4] mixed_catalog 4 =
   Inr (Rows [mk_candidate 2 ''rock'' ''a'' 1, mk_candidate 3 ''rock'' ''b'' (7 / 10),
     mk_candidate 4 ''jazz'' ''a'' (3 / 10), mk_candidate 1 ''rock'' ''a'' (3 / 10)])"
  by (simp add: recommend_from_favorites_def finish_recs_def mixed_scorer_eval
      mixed_scorer_eval_4 scorer_unknown mixed_catalog_ids stable_sort_desc_def head_def
      drop_duplicates_def mk_candidate_def mixed_recs_def)

text \<open>
  C7. What the aggregator returns has pairwise different ids and is ordered by descending
  similarity, for every \<open>top_k\<close>; it has at most \<open>top_k\<close> rows when \<open>top_k \<ge> 0\<close>. For a
  negative \<open>top_k\<close>, \<^verbatim>\<open>head(top_k)\<close> drops rows from the end instead, and the claimed
  bound fails: with \<open>top_k = -1\<close> one row is returned.
\<close>

theorem aggregate_output_shape:
  assumes "sort_contract srt"
    and "recommend_from_favorites srt smp seed_ids track_df top_k = Inr f"
  shows "distinct (map c_track_id (frame_rows f)) \<and>
         sorted_wrt (\<lambda>a b. similarity b \<le> similarity a) (frame_rows f) \<and>
         (0 \<le> top_k \<longrightarrow> int (length (frame_rows f)) \<le> top_k)"
proof -
  from aggregate_result [OF assms(2)] obtain acc
    where f: "f = Rows (head top_k (srt (drop_duplicates acc)))" by blast
  have "distinct (map c_track_id (srt (drop_duplicates acc)))"
    using assms(1) distinct_drop_duplicates by (rule sort_contract_distinct_ids)
  then have "distinct (map c_track_id (frame_rows f))"
    by (simp add: f distinct_map_head)
  moreover have "sorted_wrt (\<lambda>a b. similarity b \<le> similarity a) (frame_rows f)"
    using sort_contract_sorted [OF assms(1)] by (simp add: f sorted_wrt_head)
  moreover have "0 \<le> top_k \<longrightarrow> int (length (frame_rows f)) \<le> top_k"
    by (simp add: f length_head_le)
  ultimately show ?thesis by simp
qed

theorem aggregate_output_shape_witness:
  "recommend_from_favorites stable_sort_desc first_rows [1, 4, 1, 999, 4] mixed_catalog 4 =
     Inr (Rows [mk_candidate 2 ''rock'' ''a'' 1, mk_candidate 3 ''rock'' ''b'' (7 / 10),
       mk_candidate 4 ''jazz'' ''a'' (3 / 10), mk_candidate 1 ''rock'' ''a'' (3 / 10)]) \<and>
   distinct (map c_track_id [mk_candidate 2 ''rock'' ''a'' 1, mk_candidate 3 ''rock'' ''b'' (7 / 10),
       mk_candidate 4 ''jazz'' ''a'' (3 / 10), mk_candidate 1 ''rock'' ''a'' (3 / 10)]) \<and>
   sorted_wrt (\<lambda>a b. similarity b \<le> similarity a)
      [mk_candidate 2 ''rock'' ''a'' 1, mk_candidate 3 ''rock'' ''b'' (7 / 10),
       mk_candidate 4 ''jazz'' ''a'' (3 / 10), mk_candidate 1 ''rock'' ''a'' (3 / 10)] \<and>
   (0 :: int) \<le> 4 \<and>
   int (length [mk_candidate 2 ''rock'' ''a'' 1, mk_candidate 3 ''rock'' ''b'' (7 / 10),
       mk_candidate 4 ''jazz'' ''a'' (3 / 10), mk_candidate 1 ''rock'' ''a'' (3 / 10)]) \<le> 4"
  using aggregate_output_shape [OF sort_contract_stable mixed_aggregate_eval] mixed_aggregate_eval
  by simp

theorem aggregate_length_bound_counterexample:
  "recommend_from_favorites stable_sort_desc first_rows [1] small_catalog (- 1) =
     Inr (Rows [mk_candidate 2 ''jazz'' ''b'' 0]) \<and>
   \<not> int (length (frame_rows (Rows [mk_candidate 2 ''jazz'' ''b'' 0]))) \<le> - 1"
  using small_aggregate_eval_negative by simp

lemma aggregate_of_accumulated:
  "accumulate_recs srt smp seed_ids track_df NoColumns = Inr (Rows acc) \<Longrightarrow>
   recommend_from_favorites srt smp seed_ids track_df top_k =
     Inr (Rows (head top_k (srt (drop_duplicates acc))))"
  by (simp add: recommend_from_favorites_def finish_recs_Rows)

lemma stable_sort_keeps_ties:
  "filter (\<lambda>c. similarity c = s) (stable_sort_desc cs) = filter (\<lambda>c. similarity c = s) cs"
proof -
  have "filter (\<lambda>c. - similarity c = - s) (sort_key (\<lambda>c. - similarity c) cs) =
        filter (\<lambda>c. - similarity c = - s) cs"
    by (rule sort_key_stable)
  then show ?thesis by (simp add: stable_sort_desc_def)
qed

lemma mixed_accumulate_eval:
  "accumulate_recs stable_sort_desc first_rows [1, 999] mixed_catalog NoColumns =
   Inr (Rows mixed_recs)"
  by (simp add: mixed_scorer_eval scorer_unknown mixed_catalog_ids)

text \<open>
  C4. The aggregator returns the first \<open>top_k\<close> rows of the library's descending sort of
  the deduplicated accumulated rows: the same rows, ordered by descending similarity. The
  sort is the default one of \<^verbatim>\<open>sort_values\<close>, \<^verbatim>\<open>kind='quicksort'\<close>, which is not a stable
  algorithm, so the order of rows with equal similarity is the library's and need not be
  the accumulation order. On the block catalog the five seeds accumulate 18 different
  tracks; the quicksort partitions a frame of that length, and the ten rows returned are not
  the first ten of the stable order.
\<close>

theorem aggregate_sorts_deduplicated:
  assumes "sort_contract srt"
    and "accumulate_recs srt smp seed_ids track_df NoColumns = Inr (Rows acc)"
  shows "recommend_from_favorites srt smp seed_ids track_df top_k =
           Inr (Rows (head top_k (srt (drop_duplicates acc)))) \<and>
         mset (srt (drop_duplicates acc)) = mset (drop_duplicates acc) \<and>
         sorted_wrt (\<lambda>a b. similarity b \<le> similarity a) (srt (drop_duplicates acc))"
  using assms(1) aggregate_of_accumulated [OF assms(2)]
  by (simp add: sort_contract_def)

theorem aggregate_sorts_deduplicated_witness:
  "accumulate_recs stable_sort_desc first_rows [1, 999] mixed_catalog NoColumns =
     Inr (Rows mixed_recs) \<and>
   recommend_from_favorites stable_sort_desc first_rows [1, 999] mixed_catalog 4 =
     Inr (Rows (head 4 (stable_sort_desc (drop_duplicates mixed_recs)))) \<and>
   mset (stable_sort_desc (drop_duplicates mixed_recs)) = mset (drop_duplicates mixed_recs) \<and>
   sorted_wrt (\<lambda>a b. similarity b \<le> similarity a) (stable_sort_desc (drop_duplicates mixed_recs))"
  using aggregate_sorts_deduplicated [OF sort_contract_stable mixed_accumulate_eval, of 4]
    mixed_accumulate_eval
  by simp

text \<open>
  The aggregator on the block catalog with the library's quicksort and seeded draw. Each
  scorer call sorts 19 candidates whose three best have different similarities, so its
  result does not depend on how the sort orders equal keys.
\<close>

lemma block_scorer_eval:
  "recommend_based_on_genre_artist quicksort_desc seeded_sample 1 block_catalog 3 =
     Inr (Rows (block_recs 1))"
  "recommend_based_on_genre_artist quicksort_desc seeded_sample 5 block_catalog 3 =
     Inr (Rows (block_recs 5))"
  "recommend_based_on_genre_artist quicksort_desc seeded_sample 9 block_catalog 3 =
     Inr (Rows (block_recs 9))"
  "recommend_based_on_genre_artist quicksort_desc seeded_sample 13 block_catalog 3 =
     Inr (Rows (block_recs 13))"
  "recommend_based_on_genre_artist quicksort_desc seeded_sample 17 block_catalog 3 =
     Inr (Rows (block_recs 17))"
  by code_simp+

lemma block_accumulate_eval:
  "accumulate_recs quicksort_desc seeded_sample [1, 5, 9, 13, 17] block_catalog NoColumns =
   Inr (Rows block_acc)"
  by (simp add: block_scorer_eval block_acc_def)

lemma block_dedup_eval:
  "map c_track_id (drop_duplicates block_acc) =
     [2, 3, 4, 5, 9, 19, 6, 7, 8, 1, 10, 11, 12, 14, 15, 16, 18, 20]"
  "map similarity (drop_duplicates block_acc) =
     [1, 7 / 10, 3 / 10, 0, 0, 0, 1, 7 / 10, 3 / 10, 0, 1, 7 / 10, 3 / 10, 1, 7 / 10, 3 / 10,
      1, 3 / 10]"
  "map c_track_id (stable_sort_desc (drop_duplicates block_acc)) =
     [2, 6, 10, 14, 18, 3, 7, 11, 15, 4, 8, 12, 16, 20, 5, 9, 19, 1]"
  by code_simp+

lemma block_sorted_keys:
  "map similarity (quicksort_desc (drop_duplicates block_acc)) =
     [1, 1, 1, 1, 1, 7 / 10, 7 / 10, 7 / 10, 7 / 10, 3 / 10, 3 / 10, 3 / 10, 3 / 10, 3 / 10,
      0, 0, 0, 0]"
  "sort (map c_track_id (quicksort_desc (drop_duplicates block_acc))) =
     sort (map c_track_id (drop_duplicates block_acc))"
  by code_simp+

lemma block_aggregate_differs:
  "recommend_from_favorites quicksort_desc seeded_sample [1, 5, 9, 13, 17] block_catalog 10 \<noteq>
   Inr (Rows (head 10 (stable_sort_desc (drop_duplicates block_acc))))"
  by code_simp

theorem aggregate_sort_not_stable_counterexample:
  "accumulate_recs quicksort_desc seeded_sample [1, 5, 9, 13, 17] block_catalog NoColumns =
     Inr (Rows block_acc) \<and>
   map c_track_id (drop_duplicates block_acc) =
     [2, 3, 4, 5, 9, 19, 6, 7, 8, 1, 10, 11, 12, 14, 15, 16, 18, 20] \<and>
   map similarity (drop_duplicates block_acc) =
     [1, 7 / 10, 3 / 10, 0, 0, 0, 1, 7 / 10, 3 / 10, 0, 1, 7 / 10, 3 / 10, 1, 7 / 10, 3 / 10,
      1, 3 / 10] \<and>
   map c_track_id (stable_sort_desc (drop_duplicates block_acc)) =
     [2, 6, 10, 14, 18, 3, 7, 11, 15, 4, 8, 12, 16, 20, 5, 9, 19, 1] \<and>
   recommend_from_favorites quicksort_desc seeded_sample [1, 5, 9, 13, 17] block_catalog 10 \<noteq>
     Inr (Rows (head 10 (stable_sort_desc (drop_duplicates block_acc))))"
  using block_accumulate_eval block_dedup_eval block_aggregate_differs by simp

lemma tie_scorer_eval:
  "recommend_based_on_genre_artist stable_sort_desc last_rows 1 tie_catalog 3 =
   Inr (Rows [mk_candidate 2 ''jazz'' ''a'' (3 / 10), mk_candidate 3 ''jazz'' ''a'' (3 / 10),
     mk_candidate 4 ''jazz'' ''a'' (3 / 10), mk_candidate 6 ''jazz'' ''b'' 0,
     mk_candidate 5 ''jazz'' ''a'' (3 / 10)])"
  by (simp add: eval_defs)

lemma tie_catalog_ids: "track_id ` set tie_catalog = {1, 2, 3, 4, 5, 6}"
  by (simp add: catalog_defs)

lemma accumulate_known_unknown:
  assumes "u \<notin> track_id ` set track_df"
    and "recommend_based_on_genre_artist srt smp s track_df 3 = Inr (Rows rs)"
  shows "accumulate_recs srt smp [s, u] track_df NoColumns = Inr (Rows rs)"
    and "accumulate_recs srt smp [u, s] track_df NoColumns = Inr (Rows rs)"
  using assms by (simp_all add: scorer_unknown)

text \<open>
  C5. When the scorer call for seed \<open>s\<close> (always made with \<open>top_k = 3\<close>, whatever the
  caller's \<open>top_k\<close>) returns rows and the other seed \<open>u\<close> is absent from the catalog, the
  aggregator returns those rows, which already have pairwise different ids, sorted by
  descending similarity and cut to \<open>top_k\<close>; the absent seed adds nothing, in either
  position. The sort is part of the result: the scorer's own order need not be descending.
  On the catalog of the specification's scenario the scorer call raises \<^verbatim>\<open>ValueError\<close>
  and so does the aggregator, so there is no result to compare there.
\<close>

theorem aggregate_known_and_unknown_seed:
  assumes "u \<notin> track_id ` set track_df"
    and "recommend_based_on_genre_artist srt smp s track_df 3 = Inr (Rows rs)"
  shows "recommend_from_favorites srt smp [s, u] track_df top_k =
           Inr (Rows (head top_k (srt (drop_duplicates rs)))) \<and>
         recommend_from_favorites srt smp [u, s] track_df top_k =
           Inr (Rows (head top_k (srt (drop_duplicates rs)))) \<and>
         drop_duplicates rs = rs"
proof -
  have "distinct (map c_track_id (frame_rows (Rows rs)))"
    using assms(2) by (rule scorer_rows_distinct)
  then have "drop_duplicates rs = rs"
    by (simp add: drop_duplicates_distinct_id)
  then show ?thesis
    using accumulate_known_unknown [OF assms]
    by (simp add: aggregate_of_accumulated)
qed

theorem aggregate_known_and_unknown_seed_witness:
  "999 \<notin> track_id ` set mixed_catalog \<and>
   recommend_based_on_genre_artist stable_sort_desc first_rows 1 mixed_catalog 3 =
     Inr (Rows mixed_recs) \<and>
   recommend_from_favorites stable_sort_desc first_rows [1, 999] mixed_catalog 5 =
     Inr (Rows (head 5 (stable_sort_desc (drop_duplicates mixed_recs)))) \<and>
   recommend_from_favorites stable_sort_desc first_rows [999, 1] mixed_catalog 5 =
     Inr (Rows (head 5 (stable_sort_desc (drop_duplicates mixed_recs)))) \<and>
   drop_duplicates mixed_recs = mixed_recs"
proof -
  have a: "999 \<notin> track_id ` set mixed_catalog" by (simp add: mixed_catalog_ids)
  show ?thesis
    using aggregate_known_and_unknown_seed [OF a mixed_scorer_eval, of 5] mixed_scorer_eval
    by (simp add: mixed_catalog_ids)
qed

theorem aggregate_known_and_unknown_seed_counterexample:
  "recommend_based_on_genre_artist stable_sort_desc first_rows 1 spec_catalog 3 = Inl ValueError \<and>
   recommend_from_favorites stable_sort_desc first_rows [1, 999] spec_catalog 5 = Inl ValueError \<and>
   recommend_based_on_genre_artist stable_sort_desc last_rows 1 tie_catalog 3 =
     Inr (Rows [mk_candidate 2 ''jazz'' ''a'' (3 / 10), mk_candidate 3 ''jazz'' ''a'' (3 / 10),
       mk_candidate 4 ''jazz'' ''a'' (3 / 10), mk_candidate 6 ''jazz'' ''b'' 0,
       mk_candidate 5 ''jazz'' ''a'' (3 / 10)]) \<and>
   recommend_from_favorites stable_sort_desc last_rows [1, 999] tie_catalog 5 =
     Inr (Rows [mk_candidate 2 ''jazz'' ''a'' (3 / 10), mk_candidate 3 ''jazz'' ''a'' (3 / 10),
       mk_candidate 4 ''jazz'' ''a'' (3 / 10), mk_candidate 5 ''jazz'' ''a'' (3 / 10),
       mk_candidate 6 ''jazz'' ''b'' 0])"
proof -
  have raises: "recommend_based_on_genre_artist stable_sort_desc first_rows 1 spec_catalog 3 =
      Inl ValueError"
    by (simp add: eval_defs)
  then have "recommend_from_favorites stable_sort_desc first_rows [1, 999] spec_catalog 5 =
      Inl ValueError"
    by (simp add: recommend_from_favorites_def)
  moreover have "accumulate_recs stable_sort_desc last_rows [1, 999] tie_catalog NoColumns =
      Inr (Rows [mk_candidate 2 ''jazz'' ''a'' (3 / 10), mk_candidate 3 ''jazz'' ''a'' (3 / 10),
       mk_candidate 4 ''jazz'' ''a'' (3 / 10), mk_candidate 6 ''jazz'' ''b'' 0,
       mk_candidate 5 ''jazz'' ''a'' (3 / 10)])"
    by (simp add: tie_scorer_eval scorer_unknown tie_catalog_ids)
  then have "recommend_from_favorites stable_sort_desc last_rows [1, 999] tie_catalog 5 =
     Inr (Rows [mk_candidate 2 ''jazz'' ''a'' (3 / 10), mk_candidate 3 ''jazz'' ''a'' (3 / 10),
       mk_candidate 4 ''jazz'' ''a'' (3 / 10), mk_candidate 5 ''jazz'' ''a'' (3 / 10),
       mk_candidate 6 ''jazz'' ''b'' 0])"
    by (simp add: aggregate_of_accumulated stable_sort_desc_def drop_duplicates_def head_def
        mk_candidate_def)
  ultimately show ?thesis
    using raises tie_scorer_eval by simp
qed

subsection \<open>Repeated seeds\<close>

lemma accumulate_append:
  "accumulate_recs srt smp (xs @ ys) track_df acc =
     (case accumulate_recs srt smp xs track_df acc of
        Inl e \<Rightarrow> Inl e
      | Inr acc' \<Rightarrow> accumulate_recs srt smp ys track_df acc')"
  by (induction xs arbitrary: acc) (auto split: sum.splits)

lemma covers_concat_self: "covers (concat_frames acc f) f"
  by (cases acc; cases f) (auto simp: covers_def)

lemma covers_concat_mono: "covers acc f \<Longrightarrow> covers (concat_frames acc g) f"
  by (cases acc; cases f; cases g) (auto simp: covers_def)

lemma accumulate_keeps_covered:
  "covers acc f \<Longrightarrow> accumulate_recs srt smp xs track_df acc = Inr acc' \<Longrightarrow> covers acc' f"
proof (induction xs arbitrary: acc)
  case Nil
  then show ?case by simp
next
  case (Cons x xs)
  from Cons.prems(2) obtain g
    where g: "recommend_based_on_genre_artist srt smp x track_df 3 = Inr g"
      and rest: "accumulate_recs srt smp xs track_df (concat_frames acc g) = Inr acc'"
    by (auto split: sum.splits)
  from Cons.prems(1) have "covers (concat_frames acc g) f"
    by (rule covers_concat_mono)
  then show ?case using rest by (rule Cons.IH)
qed

lemma accumulate_covers_seed:
  "accumulate_recs srt smp xs track_df acc = Inr acc' \<Longrightarrow> s \<in> set xs \<Longrightarrow>
   \<exists>f. recommend_based_on_genre_artist srt smp s track_df 3 = Inr f \<and> covers acc' f"
proof (induction xs arbitrary: acc)
  case Nil
  then show ?case by simp
next
  case (Cons x xs)
  from Cons.prems(1) obtain g
    where g: "recommend_based_on_genre_artist srt smp x track_df 3 = Inr g"
      and rest: "accumulate_recs srt smp xs track_df (concat_frames acc g) = Inr acc'"
    by (auto split: sum.splits)
  show ?case
  proof (cases "s = x")
    case True
    have "covers acc' g"
      using covers_concat_self rest by (rule accumulate_keeps_covered)
    with g True show ?thesis by blast
  next
    case False
    with Cons.prems(2) have "s \<in> set xs" by simp
    with rest show ?thesis by (rule Cons.IH)
  qed
qed

lemma drop_duplicates_append:
  "drop_duplicates (xs @ ys) = drop_duplicates xs @ keep_first (c_track_id ` set xs) ys"
  by (simp add: drop_duplicates_def keep_first_append)

lemma ids_drop_duplicates: "c_track_id ` set (drop_duplicates cs) = c_track_id ` set cs"
  by (simp add: drop_duplicates_def ids_keep_first)

lemma covered_adds_nothing:
  "covers acc f \<Longrightarrow> drop_duplicates_frame (concat_frames acc f) = drop_duplicates_frame acc"
  by (cases acc; cases f) (auto simp: covers_def drop_duplicates_append keep_first_absorbed)

lemma concat_same_dedup:
  assumes "drop_duplicates_frame a = drop_duplicates_frame b"
  shows "drop_duplicates_frame (concat_frames a g) = drop_duplicates_frame (concat_frames b g)"
proof (cases a)
  case NoColumns
  with assms have "b = NoColumns" by (cases b) simp_all
  with NoColumns show ?thesis by simp
next
  case (Rows xa)
  with assms obtain xb where b: "b = Rows xb" and eq: "drop_duplicates xa = drop_duplicates xb"
    by (cases b) simp_all
  have "c_track_id ` set xa = c_track_id ` set xb"
    using ids_drop_duplicates [of xa] ids_drop_duplicates [of xb] eq by simp
  with Rows b eq show ?thesis
    by (cases g) (simp_all add: drop_duplicates_append)
qed

lemma accumulate_same_dedup:
  "drop_duplicates_frame a = drop_duplicates_frame b \<Longrightarrow>
   map_sum id drop_duplicates_frame (accumulate_recs srt smp xs track_df a) =
   map_sum id drop_duplicates_frame (accumulate_recs srt smp xs track_df b)"
proof (induction xs arbitrary: a b)
  case Nil
  then show ?case by simp
next
  case (Cons x xs)
  show ?case
  proof (cases "recommend_based_on_genre_artist srt smp x track_df 3")
    case (Inl e)
    then show ?thesis by simp
  next
    case (Inr g)
    from Cons.prems have "drop_duplicates_frame (concat_frames a g) =
        drop_duplicates_frame (concat_frames b g)"
      by (rule concat_same_dedup)
    then have "map_sum id drop_duplicates_frame
          (accumulate_recs srt smp xs track_df (concat_frames a g)) =
        map_sum id drop_duplicates_frame
          (accumulate_recs srt smp xs track_df (concat_frames b g))"
      by (rule Cons.IH)
    then show ?thesis by (simp only: accumulate_recs.simps Inr sum.case)
  qed
qed

lemma aggregate_from_dedup:
  "recommend_from_favorites srt smp seed_ids track_df top_k =
     (case map_sum id drop_duplicates_frame (accumulate_recs srt smp seed_ids track_df NoColumns) of
        Inl e \<Rightarrow> Inl e
      | Inr d \<Rightarrow>
          (case sort_values_frame srt d of
             Inl e \<Rightarrow> Inl e
           | Inr sorted_recs \<Rightarrow> Inr (head_frame top_k sorted_recs)))"
  by (simp add: recommend_from_favorites_def finish_recs_def split: sum.splits)

lemma accumulate_repeated_seed:
  assumes "s \<in> set xs"
  shows "map_sum id drop_duplicates_frame (accumulate_recs srt smp (xs @ s # ys) track_df acc) =
         map_sum id drop_duplicates_frame (accumulate_recs srt smp (xs @ ys) track_df acc)"
proof (cases "accumulate_recs srt smp xs track_df acc")
  case (Inl e)
  then show ?thesis by (simp add: accumulate_append)
next
  case (Inr acc')
  from accumulate_covers_seed [OF Inr assms] obtain f
    where f: "recommend_based_on_genre_artist srt smp s track_df 3 = Inr f"
      and cov: "covers acc' f"
    by blast
  from cov have "drop_duplicates_frame (concat_frames acc' f) = drop_duplicates_frame acc'"
    by (rule covered_adds_nothing)
  then have "map_sum id drop_duplicates_frame
        (accumulate_recs srt smp ys track_df (concat_frames acc' f)) =
      map_sum id drop_duplicates_frame (accumulate_recs srt smp ys track_df acc')"
    by (rule accumulate_same_dedup)
  then show ?thesis
    using Inr f by (simp add: accumulate_append)
qed

text \<open>
  C10. Removing from the seed list an occurrence of a seed that occurs earlier in the list
  does not change what the aggregator returns or raises: the scorer is called again with
  the same arguments, and its rows (if any) are all duplicates of rows accumulated before.
  Removing several such occurrences is this step repeated.
\<close>

theorem aggregate_ignores_repeated_seed:
  assumes "s \<in> set xs"
  shows "recommend_from_favorites srt smp (xs @ s # ys) track_df top_k =
         recommend_from_favorites srt smp (xs @ ys) track_df top_k"
  by (simp only: aggregate_from_dedup accumulate_repeated_seed [OF assms])

theorem aggregate_ignores_repeated_seed_witness:
  "(1 :: int) \<in> set [1, 4] \<and>
   recommend_from_favorites stable_sort_desc first_rows ([1, 4] @ 1 # [999, 4]) mixed_catalog 4 =
   recommend_from_favorites stable_sort_desc first_rows ([1, 4] @ [999, 4]) mixed_catalog 4"
proof -
  have a: "(1 :: int) \<in> set [1, 4]" by simp
  show ?thesis
    using a aggregate_ignores_repeated_seed [OF a, of stable_sort_desc first_rows "[999, 4]"
        mixed_catalog 4]
    by simp
qed

end
